theory Spec2Isabelle
  imports Complex_Main
begin

section \<open>International Standard Atmosphere: layers and models\<close>

text \<open>
  The embedding follows \<^verbatim>\<open>international_standard_atmosphere.py\<close>. Python floats are
  read as exact real numbers: rounding, overflow and underflow are outside the model, and
  every statement below is about the formulas as the code writes them in exact arithmetic.
  Every exception of the source is a value: a division by zero, a domain error of
  \<^verbatim>\<open>math.pow\<close>, a failed \<^verbatim>\<open>assert\<close>, an index out of range and the two explicit
  \<^verbatim>\<open>raise ValueError\<close>, and the \<^verbatim>\<open>OverflowError\<close> of \<^verbatim>\<open>math.pow\<close>. Assertions are
  taken as enabled. What floating point does without raising is not modelled: a power too
  small for a float is kept as it is where the code returns \<open>0.0\<close>, and a sum absorbs no
  small term. Statements that would be false of the code for that reason carry the
  condition \<open>in_float_range\<close> or state a tolerance.
\<close>

datatype error = ZeroDivisionError | ValueError | AssertionError | IndexError | OverflowError

definition bind_err :: "error + 'a \<Rightarrow> ('a \<Rightarrow> error + 'b) \<Rightarrow> error + 'b" where
  "bind_err x f = (case x of Inl e \<Rightarrow> Inl e | Inr v \<Rightarrow> f v)"

definition py_div :: "real \<Rightarrow> real \<Rightarrow> error + real" where
  "py_div a b = (if b = 0 then Inl ZeroDivisionError else Inr (a / b))"

text \<open>
  \<^verbatim>\<open>math.pow(x, y)\<close>: 1 when \<open>y = 0\<close>; a domain error for \<open>0\<close> to a negative power and
  for a negative base with a non-integral exponent; the signed power for a negative base
  with an integral exponent; and a range error when the power is too large for a float,
  which is from \<open>2 ^ 1024 - 2 ^ 970\<close> on, where rounding to nearest gives infinity.
\<close>

definition overflow_threshold :: real where
  "overflow_threshold = 2 ^ 1024 - 2 ^ 970"

definition math_pow :: "real \<Rightarrow> real \<Rightarrow> error + real" where
  "math_pow x y =
     (if y = 0 then Inr 1
      else if x = 0 then (if y < 0 then Inl ValueError else Inr 0)
      else if x < 0 then
        (if of_int \<lfloor>y\<rfloor> = y
         then (if overflow_threshold \<le> (- x) powr y then Inl OverflowError
               else Inr ((if even \<lfloor>y\<rfloor> then 1 else - 1) * ((- x) powr y)))
         else Inl ValueError)
      else if overflow_threshold \<le> x powr y then Inl OverflowError
      else Inr (x powr y))"

subsection \<open>ISALayer\<close>

record ISALayer =
  height :: real
  tbot :: real
  base_press :: real
  gas_const :: real
  ttop :: real

definition grav_const :: real where
  "grav_const = 9.8066"

definition default_gas_const :: real where
  "default_gas_const = 0.28704"

definition ISALayer_init :: "real \<Rightarrow> real \<Rightarrow> real \<Rightarrow> real \<Rightarrow> real \<Rightarrow> ISALayer" where
  "ISALayer_init h lapse_rate base_temp bp gc =
     \<lparr>height = h, tbot = base_temp, base_press = bp, gas_const = gc,
      ttop = base_temp + lapse_rate * h\<rparr>"

definition slack :: real where
  "slack = 1 / 10 ^ 10"

definition ISALayer_get_temperature_by_altitude :: "ISALayer \<Rightarrow> real \<Rightarrow> error + real" where
  "ISALayer_get_temperature_by_altitude L altitude =
     (if \<not> (- slack \<le> altitude \<and> altitude \<le> height L + slack) then Inl AssertionError
      else bind_err (py_div altitude (height L))
             (\<lambda>q. Inr (tbot L + (ttop L - tbot L) * q)))"

definition ISALayer_get_pressure_by_altitude :: "ISALayer \<Rightarrow> real \<Rightarrow> error + real" where
  "ISALayer_get_pressure_by_altitude L altitude =
     bind_err (py_div (- grav_const * tbot L * height L) (gas_const L * ttop L)) (\<lambda>exp.
     bind_err (py_div (altitude * ttop L) ((tbot L)\<^sup>2 * height L)) (\<lambda>q.
     bind_err (math_pow (1 + q) exp) (\<lambda>pw.
     Inr (base_press L * pw))))"

definition ISALayer_get_altitude_by_pressure :: "ISALayer \<Rightarrow> real \<Rightarrow> error + real" where
  "ISALayer_get_altitude_by_pressure L pressure =
     bind_err (py_div ((tbot L)\<^sup>2 * height L) (ttop L)) (\<lambda>co.
     bind_err (py_div (gas_const L * ttop L) (grav_const * tbot L * height L)) (\<lambda>exp.
     bind_err (py_div (base_press L) pressure) (\<lambda>r.
     bind_err (math_pow r exp) (\<lambda>pw.
     Inr (co * (pw - 1))))))"

definition ISALayer_get_temperature_by_pressure :: "ISALayer \<Rightarrow> real \<Rightarrow> error + real" where
  "ISALayer_get_temperature_by_pressure L pressure =
     bind_err (ISALayer_get_altitude_by_pressure L pressure)
       (\<lambda>altitude. ISALayer_get_temperature_by_altitude L altitude)"

subsection \<open>ISAModel\<close>

record ISAModel =
  layers :: "ISALayer list"

definition ISAModel_init :: ISAModel where
  "ISAModel_init = \<lparr>layers = []\<rparr>"


text \<open>
  \<^verbatim>\<open>x or y\<close> on an optional number: \<open>None\<close> and zero are falsy, and then the value is
  that of \<open>y\<close>, whatever it is.
\<close>

definition py_or :: "real option \<Rightarrow> (error + real) \<Rightarrow> error + real" where
  "py_or x y = (case x of None \<Rightarrow> y | Some v \<Rightarrow> if v \<noteq> 0 then Inr v else y)"

definition last_layer :: "ISAModel \<Rightarrow> error + ISALayer" where
  "last_layer m = (if layers m = [] then Inl IndexError else Inr (last (layers m)))"

definition add_layer ::
  "ISAModel \<Rightarrow> real \<Rightarrow> real \<Rightarrow> real option \<Rightarrow> real option \<Rightarrow> error + ISAModel" where
  "add_layer m h lapse_rate base_temp base_press' =
     bind_err (py_or base_temp
        (bind_err (last_layer m) (\<lambda>l. ISALayer_get_temperature_by_altitude l (height l)))) (\<lambda>bt.
     bind_err (py_or base_press'
        (bind_err (last_layer m) (\<lambda>l. ISALayer_get_pressure_by_altitude l (height l)))) (\<lambda>bp.
     Inr (m\<lparr>layers := layers m @ [ISALayer_init h lapse_rate bt bp default_gas_const]\<rparr>)))"

definition standard_config :: "error + ISAModel" where
  "standard_config =
     bind_err (add_layer ISAModel_init 11.019 (- 6.5) (Some (273.15 + 19.0)) (Some 101325)) (\<lambda>atm.
     bind_err (add_layer atm (20.063 - 11.019) 0.0 None None) (\<lambda>atm.
     bind_err (add_layer atm (32.162 - 20.063) 1.0 None None) (\<lambda>atm.
     bind_err (add_layer atm (47.350 - 32.162) 2.8 None None) (\<lambda>atm.
     bind_err (add_layer atm (51.413 - 47.350) 0.0 None None) (\<lambda>atm.
     bind_err (add_layer atm (71.802 - 51.413) (- 2.8) None None) (\<lambda>atm.
     bind_err (add_layer atm (84.852 - 71.802) (- 2.0) None None) (\<lambda>atm.
     Inr atm)))))))"

fun get_layer_by_altitude_loop ::
  "ISALayer list \<Rightarrow> real \<Rightarrow> real \<Rightarrow> error + (ISALayer \<times> real)" where
  "get_layer_by_altitude_loop [] alt altitude = Inl ValueError"
| "get_layer_by_altitude_loop (layer # ls) alt altitude =
     (let alt' = alt + height layer in
      if altitude \<le> alt' then Inr (layer, altitude - alt' + height layer)
      else get_layer_by_altitude_loop ls alt' altitude)"

definition get_layer_by_altitude :: "ISAModel \<Rightarrow> real \<Rightarrow> error + (ISALayer \<times> real)" where
  "get_layer_by_altitude m altitude = get_layer_by_altitude_loop (layers m) 0 altitude"

fun get_layer_by_pressure_loop :: "ISALayer list \<Rightarrow> real \<Rightarrow> error + ISALayer" where
  "get_layer_by_pressure_loop [] pressure = Inl ValueError"
| "get_layer_by_pressure_loop (layer # ls) pressure =
     bind_err (ISALayer_get_pressure_by_altitude layer (height layer)) (\<lambda>top.
     if pressure \<ge> top then Inr layer else get_layer_by_pressure_loop ls pressure)"

definition get_layer_by_pressure :: "ISAModel \<Rightarrow> real \<Rightarrow> error + ISALayer" where
  "get_layer_by_pressure m pressure = get_layer_by_pressure_loop (layers m) pressure"

definition ISAModel_get_temperature_by_altitude :: "ISAModel \<Rightarrow> real \<Rightarrow> error + real" where
  "ISAModel_get_temperature_by_altitude m altitude =
     bind_err (get_layer_by_altitude m altitude) (\<lambda>(layer, alt_within_layer).
     ISALayer_get_temperature_by_altitude layer alt_within_layer)"

definition ISAModel_get_temperature_by_pressure :: "ISAModel \<Rightarrow> real \<Rightarrow> error + real" where
  "ISAModel_get_temperature_by_pressure m pressure =
     bind_err (get_layer_by_pressure m pressure) (\<lambda>layer.
     ISALayer_get_temperature_by_pressure layer pressure)"

definition ISAModel_get_pressure_by_altitude :: "ISAModel \<Rightarrow> real \<Rightarrow> error + real" where
  "ISAModel_get_pressure_by_altitude m altitude =
     bind_err (get_layer_by_altitude m altitude) (\<lambda>(layer, alt_within_layer).
     ISALayer_get_pressure_by_altitude layer alt_within_layer)"

text \<open>
  The loop of \<^verbatim>\<open>get_altitude_by_pressure\<close> adds the heights of the layers in front of
  the one found and stops there. Python compares the objects by identity; the scan that
  found the layer returns the first one that passes a test on its fields, so no earlier
  layer has the same fields and comparing the records stops at the same place.
\<close>

fun add_heights_below :: "ISALayer list \<Rightarrow> ISALayer \<Rightarrow> real \<Rightarrow> real" where
  "add_heights_below [] layer alt = alt"
| "add_heights_below (l # ls) layer alt =
     (if l \<noteq> layer then add_heights_below ls layer (alt + height l) else alt)"

definition ISAModel_get_altitude_by_pressure :: "ISAModel \<Rightarrow> real \<Rightarrow> error + real" where
  "ISAModel_get_altitude_by_pressure m pressure =
     bind_err (get_layer_by_pressure m pressure) (\<lambda>layer.
     bind_err (ISALayer_get_altitude_by_pressure layer pressure) (\<lambda>alt.
     Inr (add_heights_below (layers m) layer alt)))"

subsection \<open>Predicates and closed forms used in the statements\<close>

text \<open>
  A layer as the specification's data model wants it: positive height, positive base and
  top temperature, positive base pressure; and a positive gas constant, which the default
  value is.
\<close>

definition good_layer :: "ISALayer \<Rightarrow> bool" where
  "good_layer L \<longleftrightarrow>
     0 < height L \<and> 0 < tbot L \<and> 0 < ttop L \<and> 0 < base_press L \<and> 0 < gas_const L"

text \<open>
  The value \<^verbatim>\<open>get_pressure_by_altitude\<close> computes when nothing raises, and the pressure
  at the top of a layer, the quantity \<^verbatim>\<open>_get_layer_by_pressure\<close> compares with.
\<close>

definition pressure_formula :: "ISALayer \<Rightarrow> real \<Rightarrow> real" where
  "pressure_formula L a =
     base_press L * (1 + a * ttop L / ((tbot L)\<^sup>2 * height L))
       powr (- grav_const * tbot L * height L / (gas_const L * ttop L))"

definition top_pressure :: "ISALayer \<Rightarrow> error + real" where
  "top_pressure L = ISALayer_get_pressure_by_altitude L (height L)"

text \<open>
  The isothermal exponential, in the words of the specification:
  \<open>basePressure * exp (- g * a / (gasConstant * baseTemperature))\<close>.
\<close>

definition isothermal_pressure :: "ISALayer \<Rightarrow> real \<Rightarrow> real" where
  "isothermal_pressure L a = base_press L * exp (- grav_const * a / (gas_const L * tbot L))"

text \<open>
  Pressure continuity of a stack of layers: the base pressure of each layer is the
  pressure the layer below computes at its top.
\<close>

fun continuous :: "ISALayer list \<Rightarrow> bool" where
  "continuous (lo # up # ls) \<longleftrightarrow> top_pressure lo = Inr (base_press up) \<and> continuous (up # ls)"
| "continuous _ \<longleftrightarrow> True"

text \<open>
  Agreement at the boundaries: the layer below, asked at its top, and the layer above,
  asked at its bottom, return the same temperature and the same pressure, and both are
  values.
\<close>

fun boundaries_agree :: "ISALayer list \<Rightarrow> bool" where
  "boundaries_agree (lo # up # ls) \<longleftrightarrow>
     ISALayer_get_temperature_by_altitude lo (height lo) =
       ISALayer_get_temperature_by_altitude up 0 \<and>
     ISALayer_get_pressure_by_altitude lo (height lo) =
       ISALayer_get_pressure_by_altitude up 0 \<and>
     \<not> isl (ISALayer_get_temperature_by_altitude up 0) \<and>
     \<not> isl (ISALayer_get_pressure_by_altitude up 0) \<and>
     boundaries_agree (up # ls)"
| "boundaries_agree _ \<longleftrightarrow> True"


text \<open>
  The power \<^verbatim>\<open>get_pressure_by_altitude\<close> takes, so that \<open>pressure_formula\<close> is the base
  pressure times it.
\<close>

definition power_term :: "ISALayer \<Rightarrow> real \<Rightarrow> real" where
  "power_term L a =
     (1 + a * ttop L / ((tbot L)\<^sup>2 * height L))
       powr (- grav_const * tbot L * height L / (gas_const L * ttop L))"

text \<open>
  A layer whose pressures stay clear of the ends of the floating-point range: the base
  pressure and the pressure at the top lie between \<open>2 ^ 500\<close> and its inverse, and the
  base of the power at the top is at most \<open>2 ^ 500\<close>. The code needs it for a round trip:
  a pressure that underflows to \<open>0.0\<close> makes \<^verbatim>\<open>get_altitude_by_pressure\<close> divide by
  zero. The last condition keeps the exponent of the power at a thousandth or more in
  magnitude: the inverse raises the pressure ratio to the inverse of that exponent, which
  magnifies the rounding of the ratio by as much.
\<close>

definition in_float_range :: "ISALayer \<Rightarrow> bool" where
  "in_float_range L \<longleftrightarrow>
     1 / 2 ^ 500 \<le> base_press L \<and> base_press L \<le> 2 ^ 500 \<and>
     1 / 2 ^ 500 \<le> pressure_formula L (height L) \<and> pressure_formula L (height L) \<le> 2 ^ 500 \<and>
     1 + ttop L / (tbot L)\<^sup>2 \<le> 2 ^ 500 \<and>
     1 / 1000 \<le> \<bar>grav_const * tbot L * height L / (gas_const L * ttop L)\<bar>"

text \<open>
  The scale of the altitudes a layer computes: \<^verbatim>\<open>get_altitude_by_pressure\<close> multiplies
  \<open>tbot\<^sup>2 * height / ttop\<close> with a difference of numbers near one, so its rounding error
  is a fraction of that product and of the height, whatever the altitude.
\<close>

definition layer_scale :: "ISALayer \<Rightarrow> real" where
  "layer_scale L = height L * (1 + (tbot L)\<^sup>2 / ttop L)"

text \<open>
  The invariant a model built by \<^verbatim>\<open>add_layer\<close> with the base values omitted keeps,
  as long as the heights and the top temperatures stay positive.
\<close>

definition stack_ok :: "ISALayer list \<Rightarrow> bool" where
  "stack_ok ls \<longleftrightarrow> ls \<noteq> [] \<and> list_all good_layer ls \<and> continuous ls \<and> boundaries_agree ls"

text \<open>
  Layers and models the statements below are tried on: the first layer of
  \<^verbatim>\<open>standard_config\<close>, a layer with the height, lapse rate and base temperature of its
  second layer and a base pressure of 22632, a layer of height, temperature and pressure
  one, the model \<^verbatim>\<open>add_layer\<close> builds from it with the base values omitted, the model it
  builds with the same base values given again, a layer with a negative gas constant, and
  two layers with gas constants of small magnitude.
\<close>

definition troposphere :: ISALayer where
  "troposphere = ISALayer_init 11.019 (- 6.5) (273.15 + 19.0) 101325 default_gas_const"

definition tropopause :: ISALayer where
  "tropopause = ISALayer_init 9.044 0 220.5265 22632 default_gas_const"

definition example_layer :: ISALayer where
  "example_layer = ISALayer_init 1 0 1 1 default_gas_const"

definition stacked_layers :: ISAModel where
  "stacked_layers = \<lparr>layers = [example_layer,
     ISALayer_init 1 0 (ttop example_layer) (pressure_formula example_layer (height example_layer))
       default_gas_const]\<rparr>"



definition thin_gas_layer :: ISALayer where
  "thin_gas_layer = ISALayer_init 1 0 1 1 0.001"


section \<open>Basic facts\<close>

lemma bind_err_Inr [simp]: "bind_err (Inr v) f = f v"
  by (simp add: bind_err_def)

lemma bind_err_Inl [simp]: "bind_err (Inl e) f = Inl e"
  by (simp add: bind_err_def)

lemma bind_err_eq_Inr: "bind_err x f = Inr r \<longleftrightarrow> (\<exists>v. x = Inr v \<and> f v = Inr r)"
  by (cases x) simp_all

lemma py_div_nonzero: "b \<noteq> 0 \<Longrightarrow> py_div a b = Inr (a / b)"
  by (simp add: py_div_def)

lemma py_div_zero: "py_div a 0 = Inl ZeroDivisionError"
  by (simp add: py_div_def)

lemma math_pow_pos:
  "0 < x \<Longrightarrow> x powr y < overflow_threshold \<Longrightarrow> math_pow x y = Inr (x powr y)"
  by (simp add: math_pow_def)

lemma math_pow_overflow:
  "0 < x \<Longrightarrow> y \<noteq> 0 \<Longrightarrow> overflow_threshold \<le> x powr y \<Longrightarrow>
   math_pow x y = Inl OverflowError"
  by (simp add: math_pow_def)

lemma threshold_large: "2 ^ 1000 < overflow_threshold"
  by (simp add: overflow_threshold_def)

lemma threshold_small: "overflow_threshold \<le> 2 ^ 1024"
  by (simp add: overflow_threshold_def)

lemma one_below_threshold: "1 < overflow_threshold"
  using threshold_large by (rule order.strict_trans[rotated]) simp

lemma powr_at_most_one:
  fixes x e :: real
  assumes "1 \<le> x" and "e \<le> 0"
  shows "x powr e \<le> 1"
  using powr_mono2'[of e 1 x] assms by simp

lemma pressure_formula_power: "pressure_formula L a = base_press L * power_term L a"
  by (simp add: pressure_formula_def power_term_def)

lemma half_powr: "(1 / 2) powr e = 2 powr (- e)" for e :: real
  by (simp add: powr_def ln_div)

lemma power_upper_bound:
  fixes x e :: real
  assumes "1 / 2 \<le> x" and "- 1000 \<le> e" and "e \<le> 0"
  shows "x powr e \<le> 2 ^ 1000"
proof -
  have "x powr e \<le> (1 / 2) powr e"
    using assms(1,3) by (intro powr_mono2') auto
  also have "\<dots> = 2 powr (- e)" by (rule half_powr)
  also have "\<dots> \<le> 2 powr 1000" using assms(2) by (intro powr_mono) auto
  also have "\<dots> = 2 ^ 1000" by (simp add: powr_numeral)
  finally show ?thesis .
qed

lemma power_lower_bound:
  fixes x e :: real
  assumes "1 \<le> x" and "x \<le> 2" and "- 250 \<le> e" and "e \<le> 0"
  shows "1 / 2 ^ 250 \<le> x powr e"
proof -
  have "(2::real) powr (- 250) = inverse (2 powr 250)" by (rule powr_minus)
  also have "\<dots> = 1 / 2 ^ 250" by (simp only: powr_numeral inverse_eq_divide)
  finally have "1 / 2 ^ 250 = (2::real) powr (- 250)" by simp
  also have "\<dots> \<le> 2 powr e" using assms(3) by (intro powr_mono) auto
  also have "\<dots> \<le> x powr e" using assms(1,2,4) by (intro powr_mono2') auto
  finally show ?thesis .
qed

lemma power_overflows:
  fixes x e :: real
  assumes "2 \<le> x" and "1024 \<le> e"
  shows "overflow_threshold \<le> x powr e"
proof -
  have "overflow_threshold \<le> 2 ^ 1024" by (rule threshold_small)
  also have "\<dots> = (2::real) powr 1024" by (simp add: powr_numeral)
  also have "\<dots> \<le> 2 powr e" using assms(2) by (intro powr_mono) auto
  also have "\<dots> \<le> x powr e" using assms by (intro powr_mono2) auto
  finally show ?thesis .
qed

lemma power_overflows_below:
  fixes x e :: real
  assumes "0 < x" and "x \<le> 1 / 2" and "e \<le> - 1024"
  shows "overflow_threshold \<le> x powr e"
proof -
  have "overflow_threshold \<le> 2 powr (- e)"
    using assms(3) by (intro power_overflows) auto
  also have "\<dots> = (1 / 2) powr e" by (rule half_powr[symmetric])
  also have "\<dots> \<le> x powr e" using assms by (intro powr_mono2') auto
  finally show ?thesis .
qed

lemma grav_const_pos: "0 < grav_const"
  by (simp add: grav_const_def)

lemma default_gas_const_pos: "0 < default_gas_const"
  by (simp add: default_gas_const_def)

lemma layer_pressure_value:
  assumes "gas_const L * ttop L \<noteq> 0" and "tbot L \<noteq> 0" and "height L \<noteq> 0"
    and "0 < 1 + a * ttop L / ((tbot L)\<^sup>2 * height L)"
    and "power_term L a < overflow_threshold"
  shows "ISALayer_get_pressure_by_altitude L a = Inr (pressure_formula L a)"
  using assms
  by (simp add: ISALayer_get_pressure_by_altitude_def pressure_formula_def power_term_def
      py_div_nonzero math_pow_pos)

lemma layer_pressure_overflow:
  assumes "gas_const L * ttop L \<noteq> 0" and "tbot L \<noteq> 0" and "height L \<noteq> 0"
    and "0 < 1 + a * ttop L / ((tbot L)\<^sup>2 * height L)"
    and "overflow_threshold \<le> power_term L a"
  shows "ISALayer_get_pressure_by_altitude L a = Inl OverflowError"
proof -
  have "- grav_const * tbot L * height L / (gas_const L * ttop L) \<noteq> 0"
    using assms(1-3) grav_const_pos by auto
  then show ?thesis
    using assms
    by (simp add: ISALayer_get_pressure_by_altitude_def power_term_def py_div_nonzero
        math_pow_overflow)
qed

lemma layer_altitude_value:
  assumes "ttop L \<noteq> 0" and "tbot L \<noteq> 0" and "height L \<noteq> 0" and "p \<noteq> 0"
    and "0 < base_press L / p"
    and "(base_press L / p) powr (gas_const L * ttop L / (grav_const * tbot L * height L))
         < overflow_threshold"
  shows "ISALayer_get_altitude_by_pressure L p =
    Inr ((tbot L)\<^sup>2 * height L / ttop L *
         ((base_press L / p) powr (gas_const L * ttop L / (grav_const * tbot L * height L)) - 1))"
  using assms grav_const_pos
  by (simp add: ISALayer_get_altitude_by_pressure_def py_div_nonzero math_pow_pos)

lemma bind_err_Inr_id: "bind_err x Inr = x"
  by (cases x) simp_all

lemma model_collapse: "\<lparr>layers = layers m\<rparr> = (m::ISAModel)"
  by simp

section \<open>Pressure within a well-formed layer\<close>

lemma good_frac_pos:
  assumes "good_layer L" and "0 \<le> a"
  shows "1 \<le> 1 + a * ttop L / ((tbot L)\<^sup>2 * height L)"
  using assms by (simp add: good_layer_def)

lemma good_exponent_neg:
  assumes "good_layer L"
  shows "- grav_const * tbot L * height L / (gas_const L * ttop L) < 0"
  using assms grav_const_pos by (simp add: good_layer_def field_simps)

lemma good_power_le_one:
  assumes "good_layer L" and "0 \<le> a"
  shows "power_term L a \<le> 1"
  unfolding power_term_def
  using good_frac_pos[OF assms] good_exponent_neg[OF assms(1)]
  by (intro powr_at_most_one) auto

lemma good_pressure:
  assumes "good_layer L" and "0 \<le> a"
  shows "ISALayer_get_pressure_by_altitude L a = Inr (pressure_formula L a)"
proof (rule layer_pressure_value)
  show "0 < 1 + a * ttop L / ((tbot L)\<^sup>2 * height L)"
    using good_frac_pos[OF assms] by simp
  show "power_term L a < overflow_threshold"
    using good_power_le_one[OF assms] one_below_threshold by linarith
qed (use assms in \<open>auto simp: good_layer_def\<close>)

lemma pressure_formula_pos:
  assumes "good_layer L" and "0 \<le> a"
  shows "0 < pressure_formula L a"
  using good_frac_pos[OF assms] assms(1) by (simp add: pressure_formula_def good_layer_def)

lemma pressure_formula_zero: "pressure_formula L 0 = base_press L"
  by (simp add: pressure_formula_def)

lemma pressure_formula_strict_mono:
  assumes "good_layer L" and "0 \<le> a1" and "a1 < a2"
  shows "pressure_formula L a2 < pressure_formula L a1"
proof -
  let ?f = "\<lambda>a. 1 + a * ttop L / ((tbot L)\<^sup>2 * height L)"
  have "0 < ?f a1" using good_frac_pos[OF assms(1,2)] by simp
  moreover have "?f a1 < ?f a2"
    using assms by (simp add: good_layer_def divide_strict_right_mono)
  ultimately have "?f a2 powr (- grav_const * tbot L * height L / (gas_const L * ttop L))
      < ?f a1 powr (- grav_const * tbot L * height L / (gas_const L * ttop L))"
    using good_exponent_neg[OF assms(1)] by (intro powr_less_mono2_neg) auto
  then show ?thesis
    using assms(1) by (simp add: pressure_formula_def good_layer_def)
qed

lemma pressure_formula_le_base:
  assumes "good_layer L" and "0 \<le> a"
  shows "pressure_formula L a \<le> base_press L"
proof (cases "a = 0")
  case True
  then show ?thesis by (simp add: pressure_formula_zero)
next
  case False
  then have "0 < a" using assms by simp
  from pressure_formula_strict_mono[OF assms(1) _ this]
  show ?thesis by (simp add: pressure_formula_zero)
qed

lemma good_top_pressure:
  assumes "good_layer L"
  shows "top_pressure L = Inr (pressure_formula L (height L))"
  using good_pressure[OF assms, of "height L"] assms by (simp add: top_pressure_def good_layer_def)

lemma good_top_temperature:
  assumes "good_layer L"
  shows "ISALayer_get_temperature_by_altitude L (height L) = Inr (ttop L)"
  using assms
  by (simp add: ISALayer_get_temperature_by_altitude_def good_layer_def slack_def py_div_nonzero)

lemma good_bottom_temperature:
  assumes "good_layer L"
  shows "ISALayer_get_temperature_by_altitude L 0 = Inr (tbot L)"
  using assms
  by (simp add: ISALayer_get_temperature_by_altitude_def good_layer_def slack_def py_div_nonzero)

lemma good_bottom_pressure:
  assumes "good_layer L"
  shows "ISALayer_get_pressure_by_altitude L 0 = Inr (base_press L)"
  using good_pressure[OF assms, of 0] by (simp add: pressure_formula_zero)

lemma frac_at_most_top:
  assumes "0 < height L" and "0 < tbot L" and "0 < ttop L" and "0 \<le> a" and "a \<le> height L"
  shows "1 + a * ttop L / ((tbot L)\<^sup>2 * height L) \<le> 1 + ttop L / (tbot L)\<^sup>2"
proof -
  have "a * ttop L / ((tbot L)\<^sup>2 * height L) = (a / height L) * (ttop L / (tbot L)\<^sup>2)"
    by simp
  also have "\<dots> \<le> 1 * (ttop L / (tbot L)\<^sup>2)"
    using assms by (intro mult_right_mono) auto
  finally show ?thesis by simp
qed

lemma in_range_frac:
  assumes "in_float_range L" and "0 < height L" and "0 < tbot L" and "0 < ttop L"
    and "0 \<le> a" and "a \<le> height L"
  shows "1 + a * ttop L / ((tbot L)\<^sup>2 * height L) < overflow_threshold"
proof -
  have "1 + a * ttop L / ((tbot L)\<^sup>2 * height L) \<le> 1 + ttop L / (tbot L)\<^sup>2"
    using assms(2-6) by (rule frac_at_most_top)
  also have "\<dots> \<le> 2 ^ 500" using assms(1) by (simp add: in_float_range_def)
  also have "(2::real) ^ 500 < 2 ^ 1000" by simp
  also note threshold_large
  finally show ?thesis .
qed

lemma in_range_power:
  assumes "in_float_range L" and "0 < height L" and "0 < tbot L" and "0 < ttop L"
    and "gas_const L \<noteq> 0" and "0 \<le> a" and "a \<le> height L"
  shows "power_term L a < overflow_threshold"
proof (cases "0 < gas_const L")
  case True
  have "1 \<le> 1 + a * ttop L / ((tbot L)\<^sup>2 * height L)" using assms by simp
  moreover have "- grav_const * tbot L * height L / (gas_const L * ttop L) \<le> 0"
    using True assms grav_const_pos by (simp add: field_simps)
  ultimately have "power_term L a \<le> 1"
    unfolding power_term_def by (rule powr_at_most_one)
  then show ?thesis using one_below_threshold by linarith
next
  case False
  then have neg: "gas_const L < 0" using assms(5) by simp
  let ?e = "- grav_const * tbot L * height L / (gas_const L * ttop L)"
  have "- grav_const * tbot L * height L < 0"
    using assms(2,3) grav_const_pos by simp
  moreover have "gas_const L * ttop L < 0" using neg assms(4) by (rule mult_neg_pos)
  ultimately have "0 < ?e" by (rule divide_neg_neg)
  then have epos: "0 \<le> ?e" by simp
  have "(0::real) < 1 / 2 ^ 500" by simp
  moreover have "1 / 2 ^ 500 \<le> base_press L" using assms(1) by (simp add: in_float_range_def)
  ultimately have bpos: "0 < base_press L" by linarith
  have "1 + a * ttop L / ((tbot L)\<^sup>2 * height L) \<le>
        1 + height L * ttop L / ((tbot L)\<^sup>2 * height L)"
    using frac_at_most_top[OF assms(2-4,6,7)] assms(2) by simp
  moreover have "0 \<le> 1 + a * ttop L / ((tbot L)\<^sup>2 * height L)" using assms by simp
  ultimately have "power_term L a \<le> power_term L (height L)"
    unfolding power_term_def using epos by (intro powr_mono2) auto
  also have "power_term L (height L) = pressure_formula L (height L) / base_press L"
    using bpos by (simp add: pressure_formula_power)
  also have "\<dots> \<le> 2 ^ 500 / (1 / 2 ^ 500)"
    using assms(1) bpos by (intro frac_le) (auto simp: in_float_range_def)
  also have "(2::real) ^ 500 / (1 / 2 ^ 500) = 2 ^ 1000" by simp
  also note threshold_large
  finally show ?thesis .
qed

lemma round_trip_formula:
  assumes "0 < height L" and "0 < tbot L" and "0 < ttop L" and "0 < base_press L"
    and "gas_const L \<noteq> 0" and "0 \<le> a"
    and "power_term L a < overflow_threshold"
    and "1 + a * ttop L / ((tbot L)\<^sup>2 * height L) < overflow_threshold"
  shows "ISALayer_get_pressure_by_altitude L a = Inr (pressure_formula L a)"
    and "ISALayer_get_altitude_by_pressure L (pressure_formula L a) = Inr a"
proof -
  define frac where "frac = 1 + a * ttop L / ((tbot L)\<^sup>2 * height L)"
  define e where "e = - grav_const * tbot L * height L / (gas_const L * ttop L)"
  define e' where "e' = gas_const L * ttop L / (grav_const * tbot L * height L)"
  define p where "p = pressure_formula L a"
  have p_eq: "p = base_press L * frac powr e"
    by (simp add: p_def pressure_formula_def frac_def e_def)
  have frac1: "1 \<le> frac" using assms by (simp add: frac_def)
  then have fpos: "0 < frac" by simp
  have ppos: "0 < p" using assms fpos by (simp add: p_eq)
  show "ISALayer_get_pressure_by_altitude L a = Inr (pressure_formula L a)"
    using assms fpos[unfolded frac_def] by (intro layer_pressure_value) auto
  have ee: "- e * e' = 1" using assms grav_const_pos by (simp add: e_def e'_def)
  have "base_press L / p = frac powr (- e)"
    using assms fpos by (simp add: p_eq powr_minus field_simps)
  then have inv: "(base_press L / p) powr e' = frac"
    using ee fpos by (simp add: powr_powr)
  have "ISALayer_get_altitude_by_pressure L p =
    Inr ((tbot L)\<^sup>2 * height L / ttop L * ((base_press L / p) powr e' - 1))"
    unfolding e'_def
    using assms ppos inv[unfolded e'_def frac_def] by (intro layer_altitude_value) auto
  with inv have "ISALayer_get_altitude_by_pressure L p =
    Inr ((tbot L)\<^sup>2 * height L / ttop L * (frac - 1))" by simp
  also have "(tbot L)\<^sup>2 * height L / ttop L * (frac - 1) = a"
    using assms by (simp add: frac_def)
  finally show "ISALayer_get_altitude_by_pressure L (pressure_formula L a) = Inr a"
    by (simp add: p_def)
qed


lemma below_zero_frac:
  assumes "good_layer L" and "- ((tbot L)\<^sup>2 * height L / ttop L) < a" and "a < 0"
  shows "0 < 1 + a * ttop L / ((tbot L)\<^sup>2 * height L)"
    and "1 + a * ttop L / ((tbot L)\<^sup>2 * height L) < 1"
proof -
  have c: "0 < (tbot L)\<^sup>2 * height L" "0 < ttop L" using assms(1) by (simp_all add: good_layer_def)
  have "- ((tbot L)\<^sup>2 * height L) < a * ttop L"
    using assms(2) c(2) by (simp add: field_simps)
  then have "- 1 < a * ttop L / ((tbot L)\<^sup>2 * height L)"
    using c(1) by (simp add: field_simps)
  then show "0 < 1 + a * ttop L / ((tbot L)\<^sup>2 * height L)" by simp
  have "a * ttop L < 0" using assms(3) c(2) by (rule mult_neg_pos)
  then have "a * ttop L / ((tbot L)\<^sup>2 * height L) < 0"
    using c(1) by (rule divide_neg_pos)
  then show "1 + a * ttop L / ((tbot L)\<^sup>2 * height L) < 1" by simp
qed

lemma pressure_below_zero_overflow:
  assumes "good_layer L" and "- ((tbot L)\<^sup>2 * height L / ttop L) < a" and "a < 0"
    and "overflow_threshold \<le> power_term L a"
  shows "ISALayer_get_pressure_by_altitude L a = Inl OverflowError"
  using below_zero_frac(1)[OF assms(1-3)] assms(1,4)
  by (intro layer_pressure_overflow) (auto simp: good_layer_def)

lemma pressure_below_zero:
  assumes "good_layer L" and "- ((tbot L)\<^sup>2 * height L / ttop L) < a" and "a < 0"
    and "power_term L a < overflow_threshold"
  shows "ISALayer_get_pressure_by_altitude L a = Inr (pressure_formula L a)"
    and "base_press L < pressure_formula L a"
proof -
  let ?f = "1 + a * ttop L / ((tbot L)\<^sup>2 * height L)"
  let ?e = "- grav_const * tbot L * height L / (gas_const L * ttop L)"
  have c: "0 < (tbot L)\<^sup>2 * height L" "0 < ttop L" using assms(1) by (simp_all add: good_layer_def)
  have "- ((tbot L)\<^sup>2 * height L) < a * ttop L"
    using assms(2) c(2) by (simp add: field_simps)
  then have "- 1 < a * ttop L / ((tbot L)\<^sup>2 * height L)"
    using c(1) by (simp add: field_simps)
  then have fpos: "0 < ?f" by simp
  have "a * ttop L < 0" using assms(3) c(2) by (rule mult_neg_pos)
  then have "a * ttop L / ((tbot L)\<^sup>2 * height L) < 0"
    using c(1) by (rule divide_neg_pos)
  then have f1: "?f < 1" by simp
  show "ISALayer_get_pressure_by_altitude L a = Inr (pressure_formula L a)"
    using fpos assms(1,4) by (intro layer_pressure_value) (auto simp: good_layer_def)
  have "1 powr ?e < ?f powr ?e"
    using good_exponent_neg[OF assms(1)] fpos f1 by (rule powr_less_mono2_neg)
  then show "base_press L < pressure_formula L a"
    using assms(1) by (simp add: pressure_formula_def good_layer_def)
qed

lemma altitude_above_base:
  assumes "good_layer L" and "base_press L < p"
  shows "\<exists>alt. ISALayer_get_altitude_by_pressure L p = Inr alt \<and> alt < 0"
proof -
  let ?e = "gas_const L * ttop L / (grav_const * tbot L * height L)"
  have g: "0 < height L" "0 < tbot L" "0 < ttop L" "0 < base_press L" "0 < gas_const L"
    using assms(1) by (simp_all add: good_layer_def)
  have ppos: "0 < p" using g(4) assms(2) by simp
  have r: "0 < base_press L / p" "base_press L / p < 1" using g(4) ppos assms(2) by simp_all
  have epos: "0 < ?e" using g grav_const_pos by simp
  have "(base_press L / p) powr ?e < 1 powr ?e"
    using epos r by (intro powr_less_mono2) auto
  then have neg: "(base_press L / p) powr ?e - 1 < 0" by simp
  then have small: "(base_press L / p) powr ?e < overflow_threshold"
    using one_below_threshold by linarith
  have "0 < (tbot L)\<^sup>2 * height L / ttop L" using g by simp
  then have "(tbot L)\<^sup>2 * height L / ttop L * ((base_press L / p) powr ?e - 1) < 0"
    using neg by (rule mult_pos_neg)
  moreover have "ISALayer_get_altitude_by_pressure L p =
      Inr ((tbot L)\<^sup>2 * height L / ttop L * ((base_press L / p) powr ?e - 1))"
    using g ppos r(1) small by (intro layer_altitude_value) auto
  ultimately show ?thesis by blast
qed

lemma troposphere_good: "good_layer troposphere"
  by (simp add: troposphere_def ISALayer_init_def good_layer_def default_gas_const_def)

lemma tropopause_good: "good_layer tropopause"
  by (simp add: tropopause_def ISALayer_init_def good_layer_def default_gas_const_def)

lemma example_layer_good: "good_layer example_layer"
  by (simp add: example_layer_def ISALayer_init_def good_layer_def default_gas_const_def)

lemma example_layer_fields:
  "height example_layer = 1" "tbot example_layer = 1" "ttop example_layer = 1"
  "base_press example_layer = 1" "gas_const example_layer = default_gas_const"
  by (simp_all add: example_layer_def ISALayer_init_def)

lemma in_float_range_intro:
  assumes "good_layer L" and "1 / 2 ^ 250 \<le> base_press L" and "base_press L \<le> 2 ^ 500"
    and "ttop L \<le> (tbot L)\<^sup>2"
    and "- 250 \<le> - grav_const * tbot L * height L / (gas_const L * ttop L)"
    and "1 / 1000 \<le> grav_const * tbot L * height L / (gas_const L * ttop L)"
  shows "in_float_range L"
proof -
  have g: "0 < height L" "0 < tbot L" "0 < ttop L" "0 < base_press L"
    using assms(1) by (simp_all add: good_layer_def)
  have top: "1 + height L * ttop L / ((tbot L)\<^sup>2 * height L) = 1 + ttop L / (tbot L)\<^sup>2"
    using g by simp
  have f1: "1 \<le> 1 + ttop L / (tbot L)\<^sup>2" using g by simp
  have f2: "1 + ttop L / (tbot L)\<^sup>2 \<le> 2" using g assms(4) by simp
  have lo: "1 / 2 ^ 250 \<le> power_term L (height L)"
    unfolding power_term_def top
    using f1 f2 assms(5) good_exponent_neg[OF assms(1)] by (intro power_lower_bound) auto
  have hi: "power_term L (height L) \<le> 1"
    using g by (intro good_power_le_one[OF assms(1)]) auto
  have "(1 / 2 ^ 250) * (1 / 2 ^ 250) \<le> base_press L * power_term L (height L)"
    using assms(2) lo by (intro mult_mono) auto
  then have "1 / 2 ^ 500 \<le> pressure_formula L (height L)"
    by (simp add: pressure_formula_power)
  moreover have "base_press L * power_term L (height L) \<le> base_press L * 1"
    using hi g(4) by (intro mult_left_mono) auto
  then have "pressure_formula L (height L) \<le> 2 ^ 500"
    using assms(3) by (simp add: pressure_formula_power)
  moreover have "(1::real) / 2 ^ 500 \<le> 1 / 2 ^ 250" by simp
  then have "1 / 2 ^ 500 \<le> base_press L" using assms(2) by linarith
  moreover have "1 + ttop L / (tbot L)\<^sup>2 \<le> 2 ^ 500" using f2 by simp
  moreover have "1 / 1000 \<le> \<bar>grav_const * tbot L * height L / (gas_const L * ttop L)\<bar>"
    using assms(6) by linarith
  ultimately show ?thesis using assms(3) unfolding in_float_range_def by blast
qed

lemma example_layer_in_range: "in_float_range example_layer"
  by (rule in_float_range_intro[OF example_layer_good])
    (simp_all add: example_layer_fields grav_const_def default_gas_const_def)

section \<open>Round trip within a layer\<close>

text \<open>
  Claim C1. For a layer with positive height, base and top temperature and base pressure,
  and a local altitude \<open>a\<close> in \<open>[0, height]\<close>, the altitude computed from the pressure
  computed at \<open>a\<close> is \<open>a\<close> again: \<^verbatim>\<open>get_altitude_by_pressure\<close> inverts
  \<^verbatim>\<open>get_pressure_by_altitude\<close>. This needs a gas constant other than zero, since both
  functions divide by an expression that has the gas constant as a factor, and pressures
  within the floating-point range. The two altitudes agree within a millionth of the
  scale of the layer; in exact arithmetic they are equal (\<open>round_trip_formula\<close>). The
  tolerance is not relative to \<open>a\<close>: the code subtracts one from a power near one, and
  near \<open>a = 0\<close> the rounding of that power is not small against \<open>a\<close>.
\<close>

theorem layer_round_trip:
  assumes "0 < height L" and "0 < tbot L" and "0 < ttop L" and "0 < base_press L"
    and "gas_const L \<noteq> 0" and "in_float_range L" and "0 \<le> a" and "a \<le> height L"
  shows "\<exists>p r. ISALayer_get_pressure_by_altitude L a = Inr p \<and>
               ISALayer_get_altitude_by_pressure L p = Inr r \<and>
               \<bar>r - a\<bar> \<le> layer_scale L / 10 ^ 6"
proof -
  have "power_term L a < overflow_threshold"
    using assms(6,1,2,3,5,7,8) by (rule in_range_power)
  moreover have "1 + a * ttop L / ((tbot L)\<^sup>2 * height L) < overflow_threshold"
    using assms(6,1,2,3,7,8) by (rule in_range_frac)
  moreover note round_trip_formula[OF assms(1-5,7)]
  moreover have "0 \<le> layer_scale L" using assms(1-3) by (simp add: layer_scale_def)
  ultimately show ?thesis by auto
qed

theorem layer_round_trip_witness:
  "0 < height example_layer \<and> 0 < tbot example_layer \<and> 0 < ttop example_layer \<and>
   0 < base_press example_layer \<and> gas_const example_layer \<noteq> 0 \<and>
   in_float_range example_layer \<and> (0::real) \<le> 1 / 2 \<and> 1 / 2 \<le> height example_layer \<and>
   (\<exists>p r. ISALayer_get_pressure_by_altitude example_layer (1 / 2) = Inr p \<and>
          ISALayer_get_altitude_by_pressure example_layer p = Inr r \<and>
          \<bar>r - 1 / 2\<bar> \<le> layer_scale example_layer / 10 ^ 6)"
  using layer_round_trip [of example_layer "1 / 2"] example_layer_in_range
    default_gas_const_pos
  by (simp add: example_layer_fields)

text \<open>
  With a gas constant of zero every condition the claim states holds, and the pressure is
  not computed: the division raises.
\<close>

theorem layer_round_trip_counterexample:
  "0 < height (ISALayer_init 1 0 1 1 0) \<and> 0 < tbot (ISALayer_init 1 0 1 1 0) \<and>
   0 < ttop (ISALayer_init 1 0 1 1 0) \<and> 0 < base_press (ISALayer_init 1 0 1 1 0) \<and>
   (0::real) \<le> 1 / 2 \<and> 1 / 2 \<le> height (ISALayer_init 1 0 1 1 0) \<and>
   bind_err (ISALayer_get_pressure_by_altitude (ISALayer_init 1 0 1 1 0) (1 / 2))
     (ISALayer_get_altitude_by_pressure (ISALayer_init 1 0 1 1 0)) = Inl ZeroDivisionError"
  by (simp add: ISALayer_init_def ISALayer_get_pressure_by_altitude_def py_div_def)

section \<open>Zero lapse rate\<close>

lemma zero_lapse_formula:
  assumes "good_layer L" and "ttop L = tbot L"
  shows "pressure_formula L a =
         base_press L * (1 + a / (tbot L * height L)) powr (- grav_const * height L / gas_const L)"
  using assms by (simp add: pressure_formula_def good_layer_def power2_eq_square)

lemma zero_lapse_above_isothermal:
  assumes "good_layer L" and "ttop L = tbot L" and "0 < a"
  shows "isothermal_pressure L a < pressure_formula L a"
proof -
  define y where "y = a / (tbot L * height L)"
  define n where "n = grav_const * height L / gas_const L"
  have ypos: "0 < y" using assms by (simp add: y_def good_layer_def)
  have npos: "0 < n" using assms grav_const_pos by (simp add: n_def good_layer_def)
  have "ln (1 + y) < y" using ypos by (rule ln_add_one_self_less_self)
  then have "- n * y < - n * ln (1 + y)" using npos by simp
  then have "exp (- n * y) < exp (- n * ln (1 + y))" by simp
  also have "exp (- n * ln (1 + y)) = (1 + y) powr (- n)"
    using ypos by (simp add: powr_def)
  finally have lt: "exp (- n * y) < (1 + y) powr (- n)" .
  have "n * y = grav_const * a / (gas_const L * tbot L)"
    using assms by (simp add: n_def y_def good_layer_def)
  then have "isothermal_pressure L a = base_press L * exp (- n * y)"
    by (simp add: isothermal_pressure_def)
  moreover have "pressure_formula L a = base_press L * (1 + y) powr (- n)"
    using zero_lapse_formula[OF assms(1,2)] by (simp add: y_def n_def)
  ultimately show ?thesis using lt assms(1) by (simp add: good_layer_def)
qed

lemma ln_one_plus_upper:
  fixes y c :: real
  assumes "0 \<le> y - c" and "2 * c \<le> (y - c)\<^sup>2" and "0 < 1 + y"
  shows "ln (1 + y) \<le> y - c"
proof -
  have "1 + (y - c) + (y - c)\<^sup>2 / 2 \<le> exp (y - c)"
    using assms(1) by (rule exp_lower_Taylor_quadratic)
  then have "1 + y \<le> exp (y - c)" using assms(2) by simp
  then have "ln (1 + y) \<le> ln (exp (y - c))" using assms(3) by (intro ln_mono) auto
  then show ?thesis by simp
qed

lemma zero_lapse_gap:
  assumes "good_layer L" and "ttop L = tbot L" and "0 < a"
    and "0 \<le> a / (tbot L * height L) - c" and "2 * c \<le> (a / (tbot L * height L) - c)\<^sup>2"
  shows "(1 + grav_const * height L / gas_const L * c) * isothermal_pressure L a
         \<le> pressure_formula L a"
proof -
  define y where "y = a / (tbot L * height L)"
  define n where "n = grav_const * height L / gas_const L"
  have ypos: "0 < y" using assms by (simp add: y_def good_layer_def)
  have npos: "0 < n" using assms grav_const_pos by (simp add: n_def good_layer_def)
  have bpos: "0 < base_press L" using assms by (simp add: good_layer_def)
  have "ln (1 + y) \<le> y - c"
    using assms(4,5) ypos unfolding y_def[symmetric] by (intro ln_one_plus_upper) auto
  then have "- n * (y - c) \<le> - n * ln (1 + y)" using npos by simp
  then have "exp (- n * (y - c)) \<le> exp (- n * ln (1 + y))" by simp
  also have "exp (- n * ln (1 + y)) = (1 + y) powr (- n)"
    using ypos by (simp add: powr_def)
  finally have le: "exp (- n * (y - c)) \<le> (1 + y) powr (- n)" .
  have split: "exp (- n * (y - c)) = exp (n * c) * exp (- n * y)"
    by (simp add: exp_add[symmetric] algebra_simps)
  have "1 + n * c \<le> exp (n * c)" by (rule exp_ge_add_one_self)
  then have "(1 + n * c) * exp (- n * y) \<le> exp (n * c) * exp (- n * y)"
    by (intro mult_right_mono) auto
  also have "\<dots> \<le> (1 + y) powr (- n)"
    using le unfolding split .
  finally have "(1 + n * c) * exp (- n * y) \<le> (1 + y) powr (- n)" .
  then have "base_press L * ((1 + n * c) * exp (- n * y)) \<le> base_press L * (1 + y) powr (- n)"
    using bpos by simp
  moreover have "n * y = grav_const * a / (gas_const L * tbot L)"
    using assms by (simp add: n_def y_def good_layer_def)
  then have "isothermal_pressure L a = base_press L * exp (- n * y)"
    by (simp add: isothermal_pressure_def)
  moreover have "pressure_formula L a = base_press L * (1 + y) powr (- n)"
    using zero_lapse_formula[OF assms(1,2)] by (simp add: y_def n_def)
  ultimately show ?thesis unfolding n_def[symmetric] by (simp add: algebra_simps)
qed

text \<open>
  Claim C3. For a layer with lapse rate zero, the specification says that the pressure at
  a local altitude \<open>a\<close> in \<open>[0, height]\<close> is the isothermal exponential
  \<open>basePressure * exp (- g * a / (gasConstant * baseTemperature))\<close>. What the code
  computes is \<open>basePressure * (1 + a / (T * height)) powr (- g * height / gasConstant)\<close>,
  with \<open>T\<close> the temperature of the layer. It is the isothermal exponential at
  \<open>a = 0\<close> and strictly above it at every \<open>a > 0\<close>.
\<close>

theorem zero_lapse_pressure:
  assumes "good_layer (ISALayer_init h 0 T p R)" and "0 \<le> a" and "a \<le> h"
  shows "ISALayer_get_pressure_by_altitude (ISALayer_init h 0 T p R) a =
           Inr (p * (1 + a / (T * h)) powr (- grav_const * h / R)) \<and>
         (a = 0 \<longrightarrow> p * (1 + a / (T * h)) powr (- grav_const * h / R) =
                   isothermal_pressure (ISALayer_init h 0 T p R) a) \<and>
         (0 < a \<longrightarrow> isothermal_pressure (ISALayer_init h 0 T p R) a <
                   p * (1 + a / (T * h)) powr (- grav_const * h / R))"
proof -
  let ?L = "ISALayer_init h 0 T p R"
  have tt: "ttop ?L = tbot ?L" by (simp add: ISALayer_init_def)
  have f: "pressure_formula ?L a = p * (1 + a / (T * h)) powr (- grav_const * h / R)"
    using zero_lapse_formula[OF assms(1) tt, of a] by (simp add: ISALayer_init_def)
  have "ISALayer_get_pressure_by_altitude ?L a = Inr (pressure_formula ?L a)"
    using assms by (intro good_pressure)
  moreover have "a = 0 \<longrightarrow> pressure_formula ?L a = isothermal_pressure ?L a"
    by (simp add: pressure_formula_zero isothermal_pressure_def)
  moreover have "0 < a \<longrightarrow> isothermal_pressure ?L a < pressure_formula ?L a"
    using zero_lapse_above_isothermal[OF assms(1) tt] by simp
  ultimately show ?thesis unfolding f by simp
qed

theorem zero_lapse_pressure_witness:
  "good_layer (ISALayer_init 9.044 0 220.5265 22632 default_gas_const) \<and>
   (0::real) \<le> 9.044 \<and> (9.044::real) \<le> 9.044 \<and>
   ISALayer_get_pressure_by_altitude (ISALayer_init 9.044 0 220.5265 22632 default_gas_const) 9.044 =
     Inr (22632 * (1 + 9.044 / (220.5265 * 9.044)) powr (- grav_const * 9.044 / default_gas_const)) \<and>
   isothermal_pressure (ISALayer_init 9.044 0 220.5265 22632 default_gas_const) 9.044 <
     22632 * (1 + 9.044 / (220.5265 * 9.044)) powr (- grav_const * 9.044 / default_gas_const)"
proof -
  have g: "good_layer (ISALayer_init 9.044 0 220.5265 22632 default_gas_const)"
    using tropopause_good by (simp add: tropopause_def)
  from zero_lapse_pressure [OF g, of "9.044"] g show ?thesis by simp
qed

text \<open>
  At the top of a layer with the dimensions of the tropopause of the standard
  configuration the computed pressure is more than 0.3 percent above the isothermal
  exponential.
\<close>

theorem zero_lapse_pressure_counterexample:
  "height tropopause = 9.044 \<and> ttop tropopause = tbot tropopause \<and>
   ISALayer_get_pressure_by_altitude tropopause 9.044 = Inr (pressure_formula tropopause 9.044) \<and>
   1.003 * isothermal_pressure tropopause 9.044 < pressure_formula tropopause 9.044"
proof -
  have tt: "ttop tropopause = tbot tropopause"
    by (simp add: tropopause_def ISALayer_init_def)
  have "(1 + grav_const * height tropopause / gas_const tropopause * (1 / 100000)) *
          isothermal_pressure tropopause 9.044 \<le> pressure_formula tropopause 9.044"
    by (rule zero_lapse_gap[OF tropopause_good tt])
      (simp_all add: tropopause_def ISALayer_init_def power2_eq_square)
  moreover have "1.003 < 1 + grav_const * height tropopause / gas_const tropopause * (1 / 100000)"
    by (simp add: tropopause_def ISALayer_init_def grav_const_def default_gas_const_def)
  then have "1.003 * isothermal_pressure tropopause 9.044 <
      (1 + grav_const * height tropopause / gas_const tropopause * (1 / 100000)) *
        isothermal_pressure tropopause 9.044"
    by (intro mult_strict_right_mono)
      (simp_all add: isothermal_pressure_def tropopause_def ISALayer_init_def)
  ultimately have "1.003 * isothermal_pressure tropopause 9.044 < pressure_formula tropopause 9.044"
    by linarith
  moreover have "ISALayer_get_pressure_by_altitude tropopause 9.044 =
      Inr (pressure_formula tropopause 9.044)"
    by (rule good_pressure[OF tropopause_good]) simp
  ultimately show ?thesis using tt by (simp add: tropopause_def ISALayer_init_def)
qed

section \<open>Domain checks of a layer\<close>

lemma temperature_assertion:
  "ISALayer_get_temperature_by_altitude L a = Inl AssertionError \<longleftrightarrow>
   a < - slack \<or> height L + slack < a"
  by (auto simp: ISALayer_get_temperature_by_altitude_def py_div_def)

lemma pressure_no_assertion: "ISALayer_get_pressure_by_altitude L a \<noteq> Inl AssertionError"
  by (auto simp: ISALayer_get_pressure_by_altitude_def bind_err_def py_div_def math_pow_def
      split: sum.splits if_splits)

lemma altitude_no_assertion: "ISALayer_get_altitude_by_pressure L p \<noteq> Inl AssertionError"
  by (auto simp: ISALayer_get_altitude_by_pressure_def bind_err_def py_div_def math_pow_def
      split: sum.splits if_splits)

text \<open>
  Claim C10. Within a layer only \<^verbatim>\<open>get_temperature_by_altitude\<close> checks its argument:
  its assertion fails exactly when the altitude is outside
  \<open>[- 1e-10, height + 1e-10]\<close>. \<^verbatim>\<open>get_pressure_by_altitude\<close> and
  \<^verbatim>\<open>get_altitude_by_pressure\<close> never fail an assertion: on a well-formed layer the
  pressure is computed for every altitude above the height. At a negative altitude that
  keeps the base of the power at one half or more, the pressure is computed, and is above
  the base pressure, unless the power is too large for a float: then \<^verbatim>\<open>math.pow\<close>
  raises \<^verbatim>\<open>OverflowError\<close>. A pressure above the base pressure gives a negative
  altitude.
\<close>

theorem layer_domain_checks:
  "(ISALayer_get_temperature_by_altitude L a = Inl AssertionError \<longleftrightarrow>
      a < - slack \<or> height L + slack < a) \<and>
   ISALayer_get_pressure_by_altitude L a \<noteq> Inl AssertionError \<and>
   ISALayer_get_altitude_by_pressure L p \<noteq> Inl AssertionError \<and>
   (good_layer L \<and> height L < a \<longrightarrow>
      ISALayer_get_pressure_by_altitude L a = Inr (pressure_formula L a)) \<and>
   (good_layer L \<and> - ((tbot L)\<^sup>2 * height L / ttop L) / 2 \<le> a \<and> a < 0 \<longrightarrow>
      (if power_term L a < overflow_threshold
       then ISALayer_get_pressure_by_altitude L a = Inr (pressure_formula L a) \<and>
            base_press L < pressure_formula L a
       else ISALayer_get_pressure_by_altitude L a = Inl OverflowError)) \<and>
   (good_layer L \<and> base_press L < p \<longrightarrow>
      (\<exists>alt. ISALayer_get_altitude_by_pressure L p = Inr alt \<and> alt < 0))"
proof -
  have above: "ISALayer_get_pressure_by_altitude L a = Inr (pressure_formula L a)"
    if "good_layer L" and "height L < a"
  proof (rule good_pressure[OF that(1)])
    show "0 \<le> a" using that by (simp add: good_layer_def)
  qed
  have below: "if power_term L a < overflow_threshold
       then ISALayer_get_pressure_by_altitude L a = Inr (pressure_formula L a) \<and>
            base_press L < pressure_formula L a
       else ISALayer_get_pressure_by_altitude L a = Inl OverflowError"
    if g: "good_layer L" and lo: "- ((tbot L)\<^sup>2 * height L / ttop L) / 2 \<le> a" and neg: "a < 0"
  proof -
    define c where "c = (tbot L)\<^sup>2 * height L / ttop L"
    have "0 < c" using g by (simp add: c_def good_layer_def)
    moreover have "- c / 2 \<le> a" using lo by (simp add: c_def)
    ultimately have "- c < a" by linarith
    then have less: "- ((tbot L)\<^sup>2 * height L / ttop L) < a" by (simp add: c_def)
    show ?thesis
      using pressure_below_zero[OF g less neg] pressure_below_zero_overflow[OF g less neg]
      by (cases "power_term L a < overflow_threshold") auto
  qed
  show ?thesis
    using temperature_assertion[of L a] pressure_no_assertion[of L a]
      altitude_no_assertion[of L p] above below altitude_above_base[of L p]
    by blast
qed

theorem layer_domain_checks_witness:
  "good_layer example_layer \<and> height example_layer < 2 \<and>
   - ((tbot example_layer)\<^sup>2 * height example_layer / ttop example_layer) / 2 \<le> - (1 / 2) \<and>
   base_press example_layer < 2 \<and>
   ISALayer_get_temperature_by_altitude example_layer 2 = Inl AssertionError \<and>
   ISALayer_get_pressure_by_altitude example_layer 2 = Inr (pressure_formula example_layer 2) \<and>
   power_term example_layer (- (1 / 2)) < overflow_threshold \<and>
   ISALayer_get_pressure_by_altitude example_layer (- (1 / 2)) =
     Inr (pressure_formula example_layer (- (1 / 2))) \<and>
   base_press example_layer < pressure_formula example_layer (- (1 / 2)) \<and>
   (\<exists>alt. ISALayer_get_altitude_by_pressure example_layer 2 = Inr alt \<and> alt < 0) \<and>
   good_layer thin_gas_layer \<and>
   - ((tbot thin_gas_layer)\<^sup>2 * height thin_gas_layer / ttop thin_gas_layer) / 2 \<le> - (1 / 2) \<and>
   overflow_threshold \<le> power_term thin_gas_layer (- (1 / 2)) \<and>
   ISALayer_get_pressure_by_altitude thin_gas_layer (- (1 / 2)) = Inl OverflowError"
proof -
  have "power_term example_layer (- (1 / 2)) \<le> 2 ^ 1000"
    unfolding power_term_def
    by (rule power_upper_bound)
      (simp_all add: example_layer_fields grav_const_def default_gas_const_def)
  then have small: "power_term example_layer (- (1 / 2)) < overflow_threshold"
    using threshold_large by linarith
  have thin: "good_layer thin_gas_layer" "height thin_gas_layer = 1" "tbot thin_gas_layer = 1"
    "ttop thin_gas_layer = 1" "gas_const thin_gas_layer = 0.001"
    by (simp_all add: thin_gas_layer_def ISALayer_init_def good_layer_def)
  have large: "overflow_threshold \<le> power_term thin_gas_layer (- (1 / 2))"
    unfolding power_term_def
    by (rule power_overflows_below) (simp_all add: thin grav_const_def)
  show ?thesis
    using layer_domain_checks [of example_layer 2 2]
      layer_domain_checks [of example_layer "- (1 / 2)" 2]
      layer_domain_checks [of thin_gas_layer "- (1 / 2)" 2]
      example_layer_good small large thin
    by (simp add: example_layer_fields slack_def)
qed

section \<open>Adding layers and the standard configuration\<close>

lemma add_layer_explicit:
  assumes "bt \<noteq> 0" and "bp \<noteq> 0"
  shows "add_layer m h lr (Some bt) (Some bp) =
         Inr (m\<lparr>layers := layers m @ [ISALayer_init h lr bt bp default_gas_const]\<rparr>)"
  using assms by (simp add: add_layer_def py_or_def)

lemma top_temperature:
  "ISALayer_get_temperature_by_altitude L (height L) = Inr t \<Longrightarrow> t = ttop L"
  by (auto simp: ISALayer_get_temperature_by_altitude_def py_div_def split: if_splits)

lemma add_layer_omitted:
  assumes "add_layer m h lr None None = Inr m'"
  shows "layers m \<noteq> [] \<and>
         (\<exists>t q. ISALayer_get_temperature_by_altitude (last (layers m)) (height (last (layers m))) = Inr t \<and>
                ISALayer_get_pressure_by_altitude (last (layers m)) (height (last (layers m))) = Inr q \<and>
                t = ttop (last (layers m)) \<and>
                m' = m\<lparr>layers := layers m @ [ISALayer_init h lr t q default_gas_const]\<rparr>)"
proof -
  have ne: "layers m \<noteq> []"
    using assms by (auto simp: add_layer_def py_or_def last_layer_def split: if_splits)
  then have ll: "last_layer m = Inr (last (layers m))" by (simp add: last_layer_def)
  from assms obtain t q where
    t: "ISALayer_get_temperature_by_altitude (last (layers m)) (height (last (layers m))) = Inr t"
    and q: "ISALayer_get_pressure_by_altitude (last (layers m)) (height (last (layers m))) = Inr q"
    and m': "m' = m\<lparr>layers := layers m @ [ISALayer_init h lr t q default_gas_const]\<rparr>"
    unfolding add_layer_def py_or_def ll by (auto simp: bind_err_eq_Inr)
  then show ?thesis using ne top_temperature[OF t] by blast
qed

lemma add_layer_good:
  assumes "layers m \<noteq> []" and "good_layer (last (layers m))"
  shows "add_layer m h lr None None =
         Inr (m\<lparr>layers := layers m @
           [ISALayer_init h lr (ttop (last (layers m)))
              (pressure_formula (last (layers m)) (height (last (layers m)))) default_gas_const]\<rparr>)"
  using assms good_top_temperature[OF assms(2)] good_top_pressure[OF assms(2)]
  by (simp add: add_layer_def py_or_def last_layer_def top_pressure_def)

lemma continuous_snoc:
  assumes "ls \<noteq> []" and "continuous ls" and "top_pressure (last ls) = Inr (base_press new)"
  shows "continuous (ls @ [new])"
  using assms
proof (induction ls rule: continuous.induct)
  case (1 lo up ls)
  then show ?case by simp
qed simp_all

lemma boundaries_agree_snoc:
  assumes "ls \<noteq> []" and "boundaries_agree ls" and "boundaries_agree [last ls, new]"
  shows "boundaries_agree (ls @ [new])"
  using assms
proof (induction ls rule: boundaries_agree.induct)
  case (1 lo up ls)
  then show ?case by simp
qed simp_all

lemma stack_ok_snoc:
  assumes "stack_ok ls" and "0 < h" and "0 < ttop (last ls) + lr * h"
  shows "stack_ok (ls @ [ISALayer_init h lr (ttop (last ls))
            (pressure_formula (last ls) (height (last ls))) default_gas_const])"
proof -
  let ?new = "ISALayer_init h lr (ttop (last ls))
            (pressure_formula (last ls) (height (last ls))) default_gas_const"
  have ne: "ls \<noteq> []" and all: "list_all good_layer ls" and co: "continuous ls"
    and ba: "boundaries_agree ls" using assms(1) by (simp_all add: stack_ok_def)
  have gl: "good_layer (last ls)" using ne all by (simp add: list_all_iff)
  have hl: "0 \<le> height (last ls)" using gl by (simp add: good_layer_def)
  have gn: "good_layer ?new"
    using assms(2,3) gl pressure_formula_pos[OF gl hl] default_gas_const_pos
    by (simp add: good_layer_def ISALayer_init_def)
  have "top_pressure (last ls) = Inr (base_press ?new)"
    using good_top_pressure[OF gl] by (simp add: ISALayer_init_def)
  then have "continuous (ls @ [?new])" using ne co by (intro continuous_snoc)
  moreover have "boundaries_agree [last ls, ?new]"
    using good_top_temperature[OF gl] good_bottom_temperature[OF gn]
      good_top_pressure[OF gl] good_bottom_pressure[OF gn]
    by (simp add: top_pressure_def ISALayer_init_def)
  then have "boundaries_agree (ls @ [?new])" using ne ba by (intro boundaries_agree_snoc)
  ultimately show ?thesis using all gn by (simp add: stack_ok_def)
qed

lemma add_layer_keeps:
  assumes "stack_ok (layers m)" and "0 < h" and "0 < ttop (last (layers m)) + lr * h"
  shows "\<exists>m'. add_layer m h lr None None = Inr m' \<and> stack_ok (layers m') \<and>
              hd (layers m') = hd (layers m) \<and> length (layers m') = Suc (length (layers m)) \<and>
              ttop (last (layers m')) = ttop (last (layers m)) + lr * h"
proof -
  have ne: "layers m \<noteq> []" and all: "list_all good_layer (layers m)"
    using assms(1) by (simp_all add: stack_ok_def)
  have gl: "good_layer (last (layers m))" using ne all by (simp add: list_all_iff)
  show ?thesis
    using add_layer_good[OF ne gl, of h lr] stack_ok_snoc[OF assms] ne
    by (simp add: ISALayer_init_def)
qed

lemma standard_config_built:
  "\<exists>m. standard_config = Inr m \<and> stack_ok (layers m) \<and> hd (layers m) = troposphere \<and>
       length (layers m) = 7"
proof -
  define m1 where "m1 = ISAModel_init\<lparr>layers := [troposphere]\<rparr>"
  have a1: "add_layer ISAModel_init 11.019 (- 6.5) (Some (273.15 + 19.0)) (Some 101325) = Inr m1"
    by (simp add: add_layer_explicit m1_def troposphere_def ISAModel_init_def)
  have s1: "stack_ok (layers m1)" "hd (layers m1) = troposphere" "length (layers m1) = 1"
    "ttop (last (layers m1)) = 220.5265"
    using troposphere_good
    by (simp_all add: m1_def stack_ok_def ISAModel_init_def troposphere_def ISALayer_init_def)
  obtain m2 where a2: "add_layer m1 (20.063 - 11.019) 0.0 None None = Inr m2"
    and s2: "stack_ok (layers m2)" "hd (layers m2) = troposphere" "length (layers m2) = 2"
    "ttop (last (layers m2)) = 220.5265"
    using add_layer_keeps[OF s1(1), of "20.063 - 11.019" "0.0"] s1 by auto
  obtain m3 where a3: "add_layer m2 (32.162 - 20.063) 1.0 None None = Inr m3"
    and s3: "stack_ok (layers m3)" "hd (layers m3) = troposphere" "length (layers m3) = 3"
    "ttop (last (layers m3)) = 232.6255"
    using add_layer_keeps[OF s2(1), of "32.162 - 20.063" "1.0"] s2 by auto
  obtain m4 where a4: "add_layer m3 (47.350 - 32.162) 2.8 None None = Inr m4"
    and s4: "stack_ok (layers m4)" "hd (layers m4) = troposphere" "length (layers m4) = 4"
    "ttop (last (layers m4)) = 275.1519"
    using add_layer_keeps[OF s3(1), of "47.350 - 32.162" "2.8"] s3 by auto
  obtain m5 where a5: "add_layer m4 (51.413 - 47.350) 0.0 None None = Inr m5"
    and s5: "stack_ok (layers m5)" "hd (layers m5) = troposphere" "length (layers m5) = 5"
    "ttop (last (layers m5)) = 275.1519"
    using add_layer_keeps[OF s4(1), of "51.413 - 47.350" "0.0"] s4 by auto
  obtain m6 where a6: "add_layer m5 (71.802 - 51.413) (- 2.8) None None = Inr m6"
    and s6: "stack_ok (layers m6)" "hd (layers m6) = troposphere" "length (layers m6) = 6"
    "ttop (last (layers m6)) = 218.0627"
    using add_layer_keeps[OF s5(1), of "71.802 - 51.413" "- 2.8"] s5 by auto
  obtain m7 where a7: "add_layer m6 (84.852 - 71.802) (- 2.0) None None = Inr m7"
    and s7: "stack_ok (layers m7)" "hd (layers m7) = troposphere" "length (layers m7) = 7"
    using add_layer_keeps[OF s6(1), of "84.852 - 71.802" "- 2.0"] s6 by auto
  have "standard_config = Inr m7"
    unfolding standard_config_def using a1 a2 a3 a4 a5 a6 a7 by simp
  then show ?thesis using s7 by blast
qed

lemma stacked_layers_built:
  "add_layer \<lparr>layers = [example_layer]\<rparr> 1 0 None None = Inr stacked_layers"
  using add_layer_good[of "\<lparr>layers = [example_layer]\<rparr>" 1 0] example_layer_good
  by (simp add: stacked_layers_def)

lemma stacked_layers_ok: "stack_ok (layers stacked_layers)"
proof -
  have "stack_ok [example_layer]" using example_layer_good by (simp add: stack_ok_def)
  from stack_ok_snoc[OF this, of 1 0] show ?thesis
    by (simp add: stacked_layers_def example_layer_fields)
qed



lemma stacked_layers_tops:
  "map top_pressure (layers stacked_layers) =
   map Inr [pressure_formula example_layer 1,
            pressure_formula (layers stacked_layers ! 1) 1]"
  "pressure_formula (layers stacked_layers ! 1) 1 < pressure_formula example_layer 1"
proof -
  have all: "list_all good_layer (layers stacked_layers)"
    using stacked_layers_ok by (simp add: stack_ok_def)
  then have g2: "good_layer (layers stacked_layers ! 1)"
    by (simp add: stacked_layers_def)
  have h2: "height (layers stacked_layers ! 1) = 1"
    "base_press (layers stacked_layers ! 1) = pressure_formula example_layer 1"
    by (simp_all add: stacked_layers_def ISALayer_init_def example_layer_fields)
  show "map top_pressure (layers stacked_layers) =
   map Inr [pressure_formula example_layer 1, pressure_formula (layers stacked_layers ! 1) 1]"
    using good_top_pressure[OF example_layer_good] good_top_pressure[OF g2] h2
    by (simp add: stacked_layers_def example_layer_fields)
  show "pressure_formula (layers stacked_layers ! 1) 1 < pressure_formula example_layer 1"
    using pressure_formula_strict_mono[OF g2, of 0 1] h2 by (simp add: pressure_formula_zero)
qed

text \<open>
  Claim C5. When \<^verbatim>\<open>add_layer\<close> is called with the base temperature and the base
  pressure omitted and returns, the model was not empty, the new layer is appended, its
  base temperature is what the previous last layer computes at its own height, which is
  its top temperature, and its base pressure is what that layer computes at its own
  height. In the standard configuration, which has seven layers, at every boundary the
  layer below at its top and the layer above at its bottom give the same temperature and
  the same pressure.
\<close>

theorem add_layer_continuity:
  "(add_layer m h lr None None = Inr m' \<longrightarrow>
      (\<exists>L. layers m \<noteq> [] \<and> layers m' = layers m @ [L] \<and>
           ISALayer_get_temperature_by_altitude (last (layers m)) (height (last (layers m))) =
             Inr (tbot L) \<and>
           tbot L = ttop (last (layers m)) \<and>
           ISALayer_get_pressure_by_altitude (last (layers m)) (height (last (layers m))) =
             Inr (base_press L))) \<and>
   (\<exists>atm. standard_config = Inr atm \<and> length (layers atm) = 7 \<and> boundaries_agree (layers atm))"
proof (intro conjI impI)
  assume "add_layer m h lr None None = Inr m'"
  from add_layer_omitted[OF this] obtain t q where ne: "layers m \<noteq> []"
    and t: "ISALayer_get_temperature_by_altitude (last (layers m)) (height (last (layers m))) = Inr t"
    and q: "ISALayer_get_pressure_by_altitude (last (layers m)) (height (last (layers m))) = Inr q"
    and tt: "t = ttop (last (layers m))"
    and m': "m' = m\<lparr>layers := layers m @ [ISALayer_init h lr t q default_gas_const]\<rparr>" by blast
  let ?L = "ISALayer_init h lr t q default_gas_const"
  have "layers m' = layers m @ [?L]" using m' by simp
  moreover have "tbot ?L = t" "base_press ?L = q" by (simp_all add: ISALayer_init_def)
  ultimately show "\<exists>L. layers m \<noteq> [] \<and> layers m' = layers m @ [L] \<and>
           ISALayer_get_temperature_by_altitude (last (layers m)) (height (last (layers m))) =
             Inr (tbot L) \<and>
           tbot L = ttop (last (layers m)) \<and>
           ISALayer_get_pressure_by_altitude (last (layers m)) (height (last (layers m))) =
             Inr (base_press L)"
    using ne t q tt by metis
next
  show "\<exists>atm. standard_config = Inr atm \<and> length (layers atm) = 7 \<and>
      boundaries_agree (layers atm)"
    using standard_config_built by (auto simp: stack_ok_def)
qed

theorem add_layer_continuity_witness:
  "add_layer \<lparr>layers = [example_layer]\<rparr> 1 0 None None = Inr stacked_layers \<and>
   (\<exists>L. layers stacked_layers = [example_layer, L] \<and>
        ISALayer_get_temperature_by_altitude example_layer (height example_layer) = Inr (tbot L) \<and>
        tbot L = ttop example_layer \<and>
        ISALayer_get_pressure_by_altitude example_layer (height example_layer) =
          Inr (base_press L))"
  using add_layer_continuity [of "\<lparr>layers = [example_layer]\<rparr>" 1 0 stacked_layers]
    stacked_layers_built
  by simp

section \<open>Lookup by altitude and monotonicity\<close>


lemma loop_here: "x \<le> height l \<Longrightarrow> get_layer_by_altitude_loop (l # ls) 0 x = Inr (l, x)"
  by (simp add: Let_def)


lemma model_pressure_here:
  "x \<le> height l \<Longrightarrow>
   ISAModel_get_pressure_by_altitude \<lparr>layers = l # ls\<rparr> x = ISALayer_get_pressure_by_altitude l x"
  by (simp add: ISAModel_get_pressure_by_altitude_def get_layer_by_altitude_def loop_here)










section \<open>Lookup by pressure\<close>


lemma pressure_loop_first:
  assumes "map top_pressure ls = map Inr ps" and "i < length ps" and "ps ! i \<le> p"
    and "\<And>j. j < i \<Longrightarrow> p < ps ! j"
  shows "get_layer_by_pressure_loop ls p = Inr (ls ! i)"
  using assms
proof (induction ls arbitrary: ps i)
  case Nil
  then show ?case by simp
next
  case (Cons l ls)
  from Cons.prems(1) obtain t ts where ps: "ps = t # ts" and t: "top_pressure l = Inr t"
    and ts: "map top_pressure ls = map Inr ts" by (cases ps) auto
  show ?case
  proof (cases i)
    case 0
    then show ?thesis using Cons.prems(3) ps t by (simp add: top_pressure_def[symmetric])
  next
    case (Suc k)
    have "p < t" using Cons.prems(4)[of 0] Suc ps by simp
    moreover have "get_layer_by_pressure_loop ls p = Inr (ls ! k)"
    proof (rule Cons.IH[OF ts])
      show "k < length ts" using Cons.prems(2) Suc ps by simp
      show "ts ! k \<le> p" using Cons.prems(3) Suc ps by simp
      show "p < ts ! j" if "j < k" for j using Cons.prems(4)[of "Suc j"] that Suc ps by simp
    qed
    ultimately show ?thesis using t Suc by (simp add: top_pressure_def[symmetric])
  qed
qed

lemma pressure_loop_none:
  assumes "map top_pressure ls = map Inr ps" and "\<And>j. j < length ps \<Longrightarrow> p < ps ! j"
  shows "get_layer_by_pressure_loop ls p = Inl ValueError"
  using assms
proof (induction ls arbitrary: ps)
  case Nil
  then show ?case by simp
next
  case (Cons l ls)
  from Cons.prems(1) obtain t ts where ps: "ps = t # ts" and t: "top_pressure l = Inr t"
    and ts: "map top_pressure ls = map Inr ts" by (cases ps) auto
  have "p < t" using Cons.prems(2)[of 0] ps by simp
  moreover have "get_layer_by_pressure_loop ls p = Inl ValueError"
  proof (rule Cons.IH[OF ts])
    show "p < ts ! j" if "j < length ts" for j using Cons.prems(2)[of "Suc j"] that ps by simp
  qed
  ultimately show ?case using t by (simp add: top_pressure_def[symmetric])
qed


lemma model_altitude_here:
  assumes "top_pressure l = Inr t" and "t \<le> p"
  shows "ISAModel_get_altitude_by_pressure \<lparr>layers = l # ls\<rparr> p =
         ISALayer_get_altitude_by_pressure l p"
  using assms
  by (simp add: ISAModel_get_altitude_by_pressure_def get_layer_by_pressure_def
      top_pressure_def bind_err_Inr_id)


text \<open>
  Claim C8. For a model whose layers have top pressures \<open>ps\<close>, strictly decreasing from
  the bottom up, the lookup by pressure returns the first layer whose top pressure is at
  most the pressure asked for, and raises when there is none. At a pressure equal to the
  top pressure of layer \<open>i\<close>, the boundary between layers \<open>i\<close> and \<open>i + 1\<close>, it
  returns layer \<open>i\<close>, the lower of the two.
\<close>

theorem layer_by_pressure_first_match:
  assumes "map top_pressure (layers m) = map Inr ps" and "sorted_wrt (>) ps"
  shows "(\<forall>i<length ps. ps ! i \<le> p \<and> (\<forall>j<i. p < ps ! j) \<longrightarrow>
            get_layer_by_pressure m p = Inr (layers m ! i)) \<and>
         ((\<forall>j<length ps. p < ps ! j) \<longrightarrow> get_layer_by_pressure m p = Inl ValueError) \<and>
         (\<forall>i<length ps. get_layer_by_pressure m (ps ! i) = Inr (layers m ! i))"
proof (intro conjI allI impI)
  fix i assume "i < length ps" and "ps ! i \<le> p \<and> (\<forall>j<i. p < ps ! j)"
  then show "get_layer_by_pressure m p = Inr (layers m ! i)"
    unfolding get_layer_by_pressure_def
    by (intro pressure_loop_first[OF assms(1)]) auto
next
  assume "\<forall>j<length ps. p < ps ! j"
  then show "get_layer_by_pressure m p = Inl ValueError"
    unfolding get_layer_by_pressure_def
    by (intro pressure_loop_none[OF assms(1)]) auto
next
  fix i assume i: "i < length ps"
  have "ps ! i < ps ! j" if "j < i" for j
    using assms(2) that i by (simp add: sorted_wrt_iff_nth_less)
  then show "get_layer_by_pressure m (ps ! i) = Inr (layers m ! i)"
    unfolding get_layer_by_pressure_def
    using i by (intro pressure_loop_first[OF assms(1)]) auto
qed

theorem layer_by_pressure_first_match_witness:
  "map top_pressure (layers stacked_layers) =
     map Inr [pressure_formula example_layer 1, pressure_formula (layers stacked_layers ! 1) 1] \<and>
   sorted_wrt (>) [pressure_formula example_layer 1,
                   pressure_formula (layers stacked_layers ! 1) 1] \<and>
   get_layer_by_pressure stacked_layers (pressure_formula example_layer 1) = Inr example_layer"
proof -
  have s: "sorted_wrt (>) [pressure_formula example_layer 1,
                   pressure_formula (layers stacked_layers ! 1) 1]"
    using stacked_layers_tops(2) by simp
  from layer_by_pressure_first_match [OF stacked_layers_tops(1) s]
  have "get_layer_by_pressure stacked_layers
          ([pressure_formula example_layer 1, pressure_formula (layers stacked_layers ! 1) 1] ! 0) =
        Inr (layers stacked_layers ! 0)" by simp
  then show ?thesis using stacked_layers_tops(1) s by (simp add: stacked_layers_def)
qed

section \<open>Round trip through a model\<close>





section \<open>Queries at the boundaries of a model\<close>









section \<open>The standard configuration at and below sea level\<close>

text \<open>
  Claim C9. In the standard configuration the temperature at altitude \<open>0\<close> is
  \<open>292.15\<close> and the pressure at altitude \<open>0\<close> is \<open>101325\<close>.
\<close>

theorem standard_config_sea_level:
  "bind_err standard_config (\<lambda>atm. ISAModel_get_temperature_by_altitude atm 0) = Inr 292.15 \<and>
   bind_err standard_config (\<lambda>atm. ISAModel_get_pressure_by_altitude atm 0) = Inr 101325"
proof -
  obtain m where m: "standard_config = Inr m" "stack_ok (layers m)" "hd (layers m) = troposphere"
    using standard_config_built by blast
  then obtain rest where ls: "layers m = troposphere # rest"
    by (cases "layers m") (auto simp: stack_ok_def)
  have "0 \<le> height troposphere" by (simp add: troposphere_def ISALayer_init_def)
  then have "get_layer_by_altitude m 0 = Inr (troposphere, 0)"
    using loop_here[of 0 troposphere rest] by (simp add: get_layer_by_altitude_def ls)
  then have "ISAModel_get_temperature_by_altitude m 0 = Inr (tbot troposphere)"
    and "ISAModel_get_pressure_by_altitude m 0 = Inr (base_press troposphere)"
    using good_bottom_temperature[OF troposphere_good] good_bottom_pressure[OF troposphere_good]
    by (simp_all add: ISAModel_get_temperature_by_altitude_def
        ISAModel_get_pressure_by_altitude_def)
  then show ?thesis unfolding m(1) bind_err_Inr
    by (simp add: troposphere_def ISALayer_init_def)
qed

text \<open>
  Claim C2. The specification wants every query outside the domain of a model to fail.
  The lookup by altitude rejects an altitude above the total height only, and the lookup
  by pressure a pressure below the pressure at the top only. In the standard
  configuration the pressure at altitude \<open>- 1\<close> is computed, and is above the sea-level
  pressure; the altitude at pressure \<open>200000\<close>, above the sea-level pressure, is
  computed, and is negative.
\<close>

theorem out_of_range_queries_answered:
  "\<exists>atm v w. standard_config = Inr atm \<and>
     ISAModel_get_pressure_by_altitude atm (- 1) = Inr v \<and> 101325 < v \<and>
     ISAModel_get_altitude_by_pressure atm 200000 = Inr w \<and> w < 0"
proof -
  obtain m where m: "standard_config = Inr m" "stack_ok (layers m)" "hd (layers m) = troposphere"
    using standard_config_built by blast
  then obtain rest where ls: "layers m = troposphere # rest"
    by (cases "layers m") (auto simp: stack_ok_def)
  have mm: "m = \<lparr>layers = troposphere # rest\<rparr>" using ls model_collapse[of m] by simp
  have f: "height troposphere = 11.019" "base_press troposphere = 101325"
    by (simp_all add: troposphere_def ISALayer_init_def)
  have "ISAModel_get_pressure_by_altitude m (- 1) =
      ISALayer_get_pressure_by_altitude troposphere (- 1)"
    unfolding mm by (rule model_pressure_here) (simp add: f)
  moreover have low: "- ((tbot troposphere)\<^sup>2 * height troposphere / ttop troposphere) < - 1"
    by (simp add: troposphere_def ISALayer_init_def power2_eq_square)
  have "power_term troposphere (- 1) \<le> 2 ^ 1000"
    unfolding power_term_def
    by (rule power_upper_bound)
      (simp_all add: troposphere_def ISALayer_init_def power2_eq_square grav_const_def
        default_gas_const_def)
  then have "power_term troposphere (- 1) < overflow_threshold"
    using threshold_large by linarith
  note pressure_below_zero[OF troposphere_good low _ this]
  ultimately have p: "ISAModel_get_pressure_by_altitude m (- 1) =
      Inr (pressure_formula troposphere (- 1))" "101325 < pressure_formula troposphere (- 1)"
    by (simp_all add: f)
  have "pressure_formula troposphere (height troposphere) \<le> 200000"
    using pressure_formula_le_base[OF troposphere_good, of "height troposphere"] by (simp add: f)
  then have "ISAModel_get_altitude_by_pressure m 200000 =
      ISALayer_get_altitude_by_pressure troposphere 200000"
    unfolding mm using good_top_pressure[OF troposphere_good] by (intro model_altitude_here) auto
  moreover obtain w where "ISALayer_get_altitude_by_pressure troposphere 200000 = Inr w" "w < 0"
    using altitude_above_base[OF troposphere_good, of 200000] by (auto simp: f)
  ultimately show ?thesis using m(1) p by auto
qed

end
